theory Spec2Isabelle
  imports Main "HOL-Library.Word"
begin

unbundle bit_operations_syntax

section \<open>Values of the Python runtime\<close>

text \<open>
  A Python \<open>str\<close> is a sequence of Unicode code points, so \<open>len\<close> counts code points:
  it is modelled as a list of naturals. A \<open>bytes\<close> object is a list of 8-bit words.
  Exceptions are values: a function that may raise returns \<open>exc + 'a\<close>, with \<open>Inl\<close>
  for the exception. \<open>KeyboardInterrupt\<close> and \<open>SystemExit\<close> derive from
  \<open>BaseException\<close> only, every other constructor from \<open>Exception\<close>.
\<close>

type_synonym byte = "8 word"
type_synonym bytes = "byte list"
type_synonym str = "nat list"

datatype exc =
    ValueError
  | TypeError
  | AttributeError
  | LookupError
  | UnicodeEncodeError
  | OSError
  | RuntimeError
  | KeyboardInterrupt
  | SystemExit

fun is_Exception :: "exc \<Rightarrow> bool" where
  "is_Exception KeyboardInterrupt = False"
| "is_Exception SystemExit = False"
| "is_Exception _ = True"

definition lit :: "string \<Rightarrow> str" where
  "lit s = map of_char s"

definition is_ascii :: "str \<Rightarrow> bool" where
  "is_ascii s = list_all (\<lambda>c. c < 128) s"


section \<open>Bytes, words and hexadecimal text\<close>

definition hexdigit :: "nat \<Rightarrow> nat" where
  "hexdigit d = (if d < 10 then 48 + d else 87 + d)"

definition hex_byte :: "byte \<Rightarrow> str" where
  "hex_byte b = [hexdigit (unat b div 16), hexdigit (unat b mod 16)]"

definition hexlify :: "bytes \<Rightarrow> str" where
  "hexlify bs = concat (map hex_byte bs)"

definition be_word :: "bytes \<Rightarrow> 'a::len word" where
  "be_word bs = foldl (\<lambda>w b. push_bit 8 w OR ucast b) 0 bs"

definition be_bytes :: "nat \<Rightarrow> 'a::len word \<Rightarrow> bytes" where
  "be_bytes n w = map (\<lambda>i. ucast (drop_bit (8 * i) w)) (rev [0..<n])"

definition le_word :: "bytes \<Rightarrow> 'a::len word" where
  "le_word bs = be_word (rev bs)"

definition le_bytes :: "nat \<Rightarrow> 'a::len word \<Rightarrow> bytes" where
  "le_bytes n w = rev (be_bytes n w)"

function blocks :: "nat \<Rightarrow> 'a list \<Rightarrow> 'a list list" where
  "blocks n xs = (if n = 0 \<or> xs = [] then [] else take n xs # blocks n (drop n xs))"
  by pat_completeness auto
termination
  by (relation "measure (\<lambda>(n, xs). length xs)") auto

declare blocks.simps [simp del]

definition rotr :: "nat \<Rightarrow> 'a::len word \<Rightarrow> 'a word" where
  "rotr n x = drop_bit n x OR push_bit (LENGTH('a) - n) (take_bit n x)"

definition rotl :: "nat \<Rightarrow> 'a::len word \<Rightarrow> 'a word" where
  "rotl n x = rotr (LENGTH('a) - n) x"

definition Ch :: "'a::len word \<Rightarrow> 'a word \<Rightarrow> 'a word \<Rightarrow> 'a word" where
  "Ch x y z = (x AND y) XOR (NOT x AND z)"

definition Maj :: "'a::len word \<Rightarrow> 'a word \<Rightarrow> 'a word \<Rightarrow> 'a word" where
  "Maj x y z = (x AND y) XOR (x AND z) XOR (y AND z)"

definition Parity :: "'a::len word \<Rightarrow> 'a word \<Rightarrow> 'a word \<Rightarrow> 'a word" where
  "Parity x y z = x XOR y XOR z"

text \<open>
  Merkle-Damgaard padding of FIPS 180-4: the byte 0x80, zero bytes up to a multiple of
  the block size, and the bit length of the message in the last \<open>lsz\<close> bytes.
\<close>

definition md_pad :: "nat \<Rightarrow> nat \<Rightarrow> bytes \<Rightarrow> bytes" where
  "md_pad bsz lsz m =
     m @ [0x80] @ replicate ((bsz - (length m + 1 + lsz) mod bsz) mod bsz) 0
       @ be_bytes lsz (of_nat (8 * length m) :: 128 word)"

type_synonym w32 = "32 word"
type_synonym w64 = "64 word"
type_synonym 'a st8 = "'a \<times> 'a \<times> 'a \<times> 'a \<times> 'a \<times> 'a \<times> 'a \<times> 'a"

fun add8 :: "'a::len word st8 \<Rightarrow> 'a word st8 \<Rightarrow> 'a word st8" where
  "add8 (a, b, c, d, e, f, g, h) (a', b', c', d', e', f', g', h') =
     (a + a', b + b', c + c', d + d', e + e', f + f', g + g', h + h')"

fun out8 :: "nat \<Rightarrow> 'a::len word st8 \<Rightarrow> bytes" where
  "out8 n (a, b, c, d, e, f, g, h) = concat (map (be_bytes n) [a, b, c, d, e, f, g, h])"

section \<open>SHA-256 (FIPS 180-4)\<close>

definition K256 :: "w32 list" where
  "K256 =
    [
     0x428A2F98, 0x71374491, 0xB5C0FBCF, 0xE9B5DBA5, 0x3956C25B, 0x59F111F1,
     0x923F82A4, 0xAB1C5ED5, 0xD807AA98, 0x12835B01, 0x243185BE, 0x550C7DC3,
     0x72BE5D74, 0x80DEB1FE, 0x9BDC06A7, 0xC19BF174, 0xE49B69C1, 0xEFBE4786,
     0x0FC19DC6, 0x240CA1CC, 0x2DE92C6F, 0x4A7484AA, 0x5CB0A9DC, 0x76F988DA,
     0x983E5152, 0xA831C66D, 0xB00327C8, 0xBF597FC7, 0xC6E00BF3, 0xD5A79147,
     0x06CA6351, 0x14292967, 0x27B70A85, 0x2E1B2138, 0x4D2C6DFC, 0x53380D13,
     0x650A7354, 0x766A0ABB, 0x81C2C92E, 0x92722C85, 0xA2BFE8A1, 0xA81A664B,
     0xC24B8B70, 0xC76C51A3, 0xD192E819, 0xD6990624, 0xF40E3585, 0x106AA070,
     0x19A4C116, 0x1E376C08, 0x2748774C, 0x34B0BCB5, 0x391C0CB3, 0x4ED8AA4A,
     0x5B9CCA4F, 0x682E6FF3, 0x748F82EE, 0x78A5636F, 0x84C87814, 0x8CC70208,
     0x90BEFFFA, 0xA4506CEB, 0xBEF9A3F7, 0xC67178F2]"

definition H256 :: "w32 st8" where
  "H256 =
    (
     0x6A09E667, 0xBB67AE85, 0x3C6EF372, 0xA54FF53A,
     0x510E527F, 0x9B05688C, 0x1F83D9AB, 0x5BE0CD19)"

definition bsig0_256 :: "w32 \<Rightarrow> w32" where
  "bsig0_256 x = rotr 2 x XOR rotr 13 x XOR rotr 22 x"

definition bsig1_256 :: "w32 \<Rightarrow> w32" where
  "bsig1_256 x = rotr 6 x XOR rotr 11 x XOR rotr 25 x"

definition ssig0_256 :: "w32 \<Rightarrow> w32" where
  "ssig0_256 x = rotr 7 x XOR rotr 18 x XOR drop_bit 3 x"

definition ssig1_256 :: "w32 \<Rightarrow> w32" where
  "ssig1_256 x = rotr 17 x XOR rotr 19 x XOR drop_bit 10 x"

text \<open>The message schedule is built most recent word first and reversed at the end.\<close>

fun sha256_schedule :: "nat \<Rightarrow> w32 list \<Rightarrow> w32 list" where
  "sha256_schedule 0 rs = rev rs"
| "sha256_schedule (Suc n) rs =
     sha256_schedule n ((ssig1_256 (rs ! 1) + rs ! 6 + ssig0_256 (rs ! 14) + rs ! 15) # rs)"

fun sha256_round :: "w32 st8 \<Rightarrow> w32 \<times> w32 \<Rightarrow> w32 st8" where
  "sha256_round (a, b, c, d, e, f, g, h) (k, w) =
     (h + bsig1_256 e + Ch e f g + k + w + (bsig0_256 a + Maj a b c), a, b, c,
      d + (h + bsig1_256 e + Ch e f g + k + w), e, f, g)"

definition sha256_compress :: "w32 st8 \<Rightarrow> bytes \<Rightarrow> w32 st8" where
  "sha256_compress H block =
     add8 H (foldl sha256_round H
       (zip K256 (sha256_schedule 48 (rev (map be_word (blocks 4 block))))))"

definition sha256 :: "bytes \<Rightarrow> bytes" where
  "sha256 m = out8 4 (foldl sha256_compress H256 (blocks 64 (md_pad 64 8 m)))"

section \<open>SHA-512 (FIPS 180-4)\<close>

definition K512 :: "w64 list" where
  "K512 =
    [
     0x428A2F98D728AE22, 0x7137449123EF65CD, 0xB5C0FBCFEC4D3B2F, 0xE9B5DBA58189DBBC,
     0x3956C25BF348B538, 0x59F111F1B605D019, 0x923F82A4AF194F9B, 0xAB1C5ED5DA6D8118,
     0xD807AA98A3030242, 0x12835B0145706FBE, 0x243185BE4EE4B28C, 0x550C7DC3D5FFB4E2,
     0x72BE5D74F27B896F, 0x80DEB1FE3B1696B1, 0x9BDC06A725C71235, 0xC19BF174CF692694,
     0xE49B69C19EF14AD2, 0xEFBE4786384F25E3, 0x0FC19DC68B8CD5B5, 0x240CA1CC77AC9C65,
     0x2DE92C6F592B0275, 0x4A7484AA6EA6E483, 0x5CB0A9DCBD41FBD4, 0x76F988DA831153B5,
     0x983E5152EE66DFAB, 0xA831C66D2DB43210, 0xB00327C898FB213F, 0xBF597FC7BEEF0EE4,
     0xC6E00BF33DA88FC2, 0xD5A79147930AA725, 0x06CA6351E003826F, 0x142929670A0E6E70,
     0x27B70A8546D22FFC, 0x2E1B21385C26C926, 0x4D2C6DFC5AC42AED, 0x53380D139D95B3DF,
     0x650A73548BAF63DE, 0x766A0ABB3C77B2A8, 0x81C2C92E47EDAEE6, 0x92722C851482353B,
     0xA2BFE8A14CF10364, 0xA81A664BBC423001, 0xC24B8B70D0F89791, 0xC76C51A30654BE30,
     0xD192E819D6EF5218, 0xD69906245565A910, 0xF40E35855771202A, 0x106AA07032BBD1B8,
     0x19A4C116B8D2D0C8, 0x1E376C085141AB53, 0x2748774CDF8EEB99, 0x34B0BCB5E19B48A8,
     0x391C0CB3C5C95A63, 0x4ED8AA4AE3418ACB, 0x5B9CCA4F7763E373, 0x682E6FF3D6B2B8A3,
     0x748F82EE5DEFB2FC, 0x78A5636F43172F60, 0x84C87814A1F0AB72, 0x8CC702081A6439EC,
     0x90BEFFFA23631E28, 0xA4506CEBDE82BDE9, 0xBEF9A3F7B2C67915, 0xC67178F2E372532B,
     0xCA273ECEEA26619C, 0xD186B8C721C0C207, 0xEADA7DD6CDE0EB1E, 0xF57D4F7FEE6ED178,
     0x06F067AA72176FBA, 0x0A637DC5A2C898A6, 0x113F9804BEF90DAE, 0x1B710B35131C471B,
     0x28DB77F523047D84, 0x32CAAB7B40C72493, 0x3C9EBE0A15C9BEBC, 0x431D67C49C100D4C,
     0x4CC5D4BECB3E42B6, 0x597F299CFC657E2A, 0x5FCB6FAB3AD6FAEC, 0x6C44198C4A475817]"

definition H512 :: "w64 st8" where
  "H512 =
    (
     0x6A09E667F3BCC908, 0xBB67AE8584CAA73B, 0x3C6EF372FE94F82B, 0xA54FF53A5F1D36F1,
     0x510E527FADE682D1, 0x9B05688C2B3E6C1F, 0x1F83D9ABFB41BD6B, 0x5BE0CD19137E2179)"

definition bsig0_512 :: "w64 \<Rightarrow> w64" where
  "bsig0_512 x = rotr 28 x XOR rotr 34 x XOR rotr 39 x"

definition bsig1_512 :: "w64 \<Rightarrow> w64" where
  "bsig1_512 x = rotr 14 x XOR rotr 18 x XOR rotr 41 x"

definition ssig0_512 :: "w64 \<Rightarrow> w64" where
  "ssig0_512 x = rotr 1 x XOR rotr 8 x XOR drop_bit 7 x"

definition ssig1_512 :: "w64 \<Rightarrow> w64" where
  "ssig1_512 x = rotr 19 x XOR rotr 61 x XOR drop_bit 6 x"

fun sha512_schedule :: "nat \<Rightarrow> w64 list \<Rightarrow> w64 list" where
  "sha512_schedule 0 rs = rev rs"
| "sha512_schedule (Suc n) rs =
     sha512_schedule n ((ssig1_512 (rs ! 1) + rs ! 6 + ssig0_512 (rs ! 14) + rs ! 15) # rs)"

fun sha512_round :: "w64 st8 \<Rightarrow> w64 \<times> w64 \<Rightarrow> w64 st8" where
  "sha512_round (a, b, c, d, e, f, g, h) (k, w) =
     (h + bsig1_512 e + Ch e f g + k + w + (bsig0_512 a + Maj a b c), a, b, c,
      d + (h + bsig1_512 e + Ch e f g + k + w), e, f, g)"

definition sha512_compress :: "w64 st8 \<Rightarrow> bytes \<Rightarrow> w64 st8" where
  "sha512_compress H block =
     add8 H (foldl sha512_round H
       (zip K512 (sha512_schedule 64 (rev (map be_word (blocks 8 block))))))"

definition sha512 :: "bytes \<Rightarrow> bytes" where
  "sha512 m = out8 8 (foldl sha512_compress H512 (blocks 128 (md_pad 128 16 m)))"

section \<open>SHA-1 (FIPS 180-4)\<close>

type_synonym 'a st5 = "'a \<times> 'a \<times> 'a \<times> 'a \<times> 'a"

definition H1 :: "w32 st5" where
  "H1 = (0x67452301, 0xEFCDAB89, 0x98BADCFE, 0x10325476, 0xC3D2E1F0)"

fun sha1_schedule :: "nat \<Rightarrow> w32 list \<Rightarrow> w32 list" where
  "sha1_schedule 0 rs = rev rs"
| "sha1_schedule (Suc n) rs =
     sha1_schedule n (rotl 1 (rs ! 2 XOR rs ! 7 XOR rs ! 13 XOR rs ! 15) # rs)"

definition sha1_f :: "nat \<Rightarrow> w32 \<Rightarrow> w32 \<Rightarrow> w32 \<Rightarrow> w32" where
  "sha1_f t x y z =
     (if t < 20 then Ch x y z else if t < 40 then Parity x y z
      else if t < 60 then Maj x y z else Parity x y z)"

definition sha1_K :: "nat \<Rightarrow> w32" where
  "sha1_K t =
     (if t < 20 then 0x5A827999 else if t < 40 then 0x6ED9EBA1
      else if t < 60 then 0x8F1BBCDC else 0xCA62C1D6)"

fun sha1_round :: "w32 st5 \<Rightarrow> nat \<times> w32 \<Rightarrow> w32 st5" where
  "sha1_round (a, b, c, d, e) (t, w) =
     (rotl 5 a + sha1_f t b c d + e + sha1_K t + w, a, rotl 30 b, c, d)"

fun add5 :: "w32 st5 \<Rightarrow> w32 st5 \<Rightarrow> w32 st5" where
  "add5 (a, b, c, d, e) (a', b', c', d', e') = (a + a', b + b', c + c', d + d', e + e')"

fun out5 :: "w32 st5 \<Rightarrow> bytes" where
  "out5 (a, b, c, d, e) = concat (map (be_bytes 4) [a, b, c, d, e])"

definition sha1_compress :: "w32 st5 \<Rightarrow> bytes \<Rightarrow> w32 st5" where
  "sha1_compress H block =
     add5 H (foldl sha1_round H
       (zip [0..<80] (sha1_schedule 64 (rev (map be_word (blocks 4 block))))))"

definition sha1 :: "bytes \<Rightarrow> bytes" where
  "sha1 m = out5 (foldl sha1_compress H1 (blocks 64 (md_pad 64 8 m)))"

section \<open>BLAKE2b with a 64-byte digest and no key (RFC 7693)\<close>

definition blake2b_IV :: "w64 list" where
  "blake2b_IV =
    [
     0x6A09E667F3BCC908, 0xBB67AE8584CAA73B, 0x3C6EF372FE94F82B, 0xA54FF53A5F1D36F1,
     0x510E527FADE682D1, 0x9B05688C2B3E6C1F, 0x1F83D9ABFB41BD6B, 0x5BE0CD19137E2179]"

definition blake2b_sigma :: "nat list list" where
  "blake2b_sigma =
    [
     [0, 1, 2, 3, 4, 5, 6, 7, 8, 9, 10, 11, 12, 13, 14, 15],
     [14, 10, 4, 8, 9, 15, 13, 6, 1, 12, 0, 2, 11, 7, 5, 3],
     [11, 8, 12, 0, 5, 2, 15, 13, 10, 14, 3, 6, 7, 1, 9, 4],
     [7, 9, 3, 1, 13, 12, 11, 14, 2, 6, 5, 10, 4, 0, 15, 8],
     [9, 0, 5, 7, 2, 4, 10, 15, 14, 1, 11, 12, 6, 8, 3, 13],
     [2, 12, 6, 10, 0, 11, 8, 3, 4, 13, 7, 5, 15, 14, 1, 9],
     [12, 5, 1, 15, 14, 13, 4, 10, 0, 7, 6, 3, 9, 2, 8, 11],
     [13, 11, 7, 14, 12, 1, 3, 9, 5, 0, 15, 4, 8, 6, 2, 10],
     [6, 15, 14, 9, 11, 3, 0, 8, 12, 2, 13, 7, 1, 4, 10, 5],
     [10, 2, 8, 4, 7, 6, 1, 5, 15, 11, 9, 14, 3, 12, 13, 0]]"

definition blake2b_G ::
  "nat \<Rightarrow> nat \<Rightarrow> nat \<Rightarrow> nat \<Rightarrow> w64 \<Rightarrow> w64 \<Rightarrow> w64 list \<Rightarrow> w64 list" where
  "blake2b_G a b c d x y v =
     (let v1 = v[a := v ! a + v ! b + x];
          v2 = v1[d := rotr 32 (v1 ! d XOR v1 ! a)];
          v3 = v2[c := v2 ! c + v2 ! d];
          v4 = v3[b := rotr 24 (v3 ! b XOR v3 ! c)];
          v5 = v4[a := v4 ! a + v4 ! b + y];
          v6 = v5[d := rotr 16 (v5 ! d XOR v5 ! a)];
          v7 = v6[c := v6 ! c + v6 ! d]
      in v7[b := rotr 63 (v7 ! b XOR v7 ! c)])"

definition blake2b_round :: "w64 list \<Rightarrow> w64 list \<Rightarrow> nat list \<Rightarrow> w64 list" where
  "blake2b_round m v s =
     blake2b_G 3 4 9 14 (m ! (s ! 14)) (m ! (s ! 15))
      (blake2b_G 2 7 8 13 (m ! (s ! 12)) (m ! (s ! 13))
       (blake2b_G 1 6 11 12 (m ! (s ! 10)) (m ! (s ! 11))
        (blake2b_G 0 5 10 15 (m ! (s ! 8)) (m ! (s ! 9))
         (blake2b_G 3 7 11 15 (m ! (s ! 6)) (m ! (s ! 7))
          (blake2b_G 2 6 10 14 (m ! (s ! 4)) (m ! (s ! 5))
           (blake2b_G 1 5 9 13 (m ! (s ! 2)) (m ! (s ! 3))
            (blake2b_G 0 4 8 12 (m ! (s ! 0)) (m ! (s ! 1)) v)))))))"

text \<open>
  The compression function \<open>F\<close>: \<open>t\<close> is the number of message bytes fed so far and
  \<open>final\<close> the final-block flag. The block is padded with zero bytes to 128 bytes.
\<close>

definition blake2b_compress :: "w64 list \<Rightarrow> bytes \<Rightarrow> nat \<Rightarrow> bool \<Rightarrow> w64 list" where
  "blake2b_compress h block t final =
     (let m = map le_word (blocks 8 (block @ replicate (128 - length block) 0));
          v0 = h @ blake2b_IV;
          v1 = v0[12 := v0 ! 12 XOR ucast (of_nat t :: 128 word)];
          v2 = v1[13 := v1 ! 13 XOR ucast (drop_bit 64 (of_nat t :: 128 word))];
          v3 = (if final then v2[14 := NOT (v2 ! 14)] else v2);
          v = foldl (blake2b_round m) v3
                (map (\<lambda>i. blake2b_sigma ! (i mod 10)) [0..<12])
      in map (\<lambda>i. h ! i XOR v ! i XOR v ! (i + 8)) [0..<8])"

fun blake2b_blocks :: "w64 list \<Rightarrow> nat \<Rightarrow> bytes list \<Rightarrow> w64 list" where
  "blake2b_blocks h t [] = blake2b_compress h [] t True"
| "blake2b_blocks h t [b] = blake2b_compress h b (t + length b) True"
| "blake2b_blocks h t (b # bs) = blake2b_blocks (blake2b_compress h b (t + 128) False) (t + 128) bs"

definition blake2b :: "bytes \<Rightarrow> bytes" where
  "blake2b m =
     concat (map (le_bytes 8)
       (blake2b_blocks (blake2b_IV[0 := blake2b_IV ! 0 XOR 0x01010040]) 0 (blocks 128 m)))"

section \<open>str.encode and str.lower\<close>

text \<open>
  UTF-8 in strict mode, as \<open>str.encode('utf-8')\<close>: one to four bytes for each code
  point, and \<open>UnicodeEncodeError\<close> for a surrogate (U+D800 to U+DFFF). No Python
  \<open>str\<close> holds a number above U+10FFFF; the encoder rejects such a number as well.
\<close>

definition utf8_cp :: "nat \<Rightarrow> bytes option" where
  "utf8_cp c =
     (if c < 0x80 then Some [of_nat c]
      else if c < 0x800 then Some [of_nat (0xC0 + c div 64), of_nat (0x80 + c mod 64)]
      else if 0xD800 \<le> c \<and> c < 0xE000 then None
      else if c < 0x10000 then
        Some [of_nat (0xE0 + c div 4096), of_nat (0x80 + c div 64 mod 64),
              of_nat (0x80 + c mod 64)]
      else if c < 0x110000 then
        Some [of_nat (0xF0 + c div 262144), of_nat (0x80 + c div 4096 mod 64),
              of_nat (0x80 + c div 64 mod 64), of_nat (0x80 + c mod 64)]
      else None)"

fun utf8_encode :: "str \<Rightarrow> exc + bytes" where
  "utf8_encode [] = Inr []"
| "utf8_encode (c # cs) =
     (case utf8_cp c of
        None \<Rightarrow> Inl UnicodeEncodeError
      | Some bs \<Rightarrow> (case utf8_encode cs of Inl e \<Rightarrow> Inl e | Inr rest \<Rightarrow> Inr (bs @ rest)))"

definition ascii_lower :: "str \<Rightarrow> str" where
  "ascii_lower s = map (\<lambda>c. if 65 \<le> c \<and> c \<le> 90 then c + 32 else c) s"

section \<open>Hash objects of hashlib\<close>

text \<open>
  An algorithm of the provider is its block size and its one-shot digest function. The
  digest function may raise: the \<open>shake\<close> algorithms of hashlib raise \<open>TypeError\<close>
  when \<open>hexdigest()\<close> is called without a length. A hash object holds the bytes fed
  to it so far: hashlib documents that repeated calls of \<open>update\<close> are equivalent to a
  single call with the concatenation of all the arguments.
\<close>

record hash_alg =
  block_size :: nat
  digest :: "bytes \<Rightarrow> exc + bytes"

record hash_obj =
  alg :: hash_alg
  fed :: bytes

definition fresh :: "hash_alg \<Rightarrow> hash_obj" where
  "fresh a = \<lparr>alg = a, fed = []\<rparr>"

definition update :: "hash_obj \<Rightarrow> bytes \<Rightarrow> hash_obj" where
  "update h bs = h\<lparr>fed := fed h @ bs\<rparr>"

definition hash_digest :: "hash_obj \<Rightarrow> exc + bytes" where
  "hash_digest h = digest (alg h) (fed h)"

definition hexdigest :: "hash_obj \<Rightarrow> exc + str" where
  "hexdigest h = (case hash_digest h of Inl e \<Rightarrow> Inl e | Inr d \<Rightarrow> Inr (hexlify d))"

definition sha1_alg :: hash_alg where
  "sha1_alg = \<lparr>block_size = 64, digest = (\<lambda>m. Inr (sha1 m))\<rparr>"

definition sha256_alg :: hash_alg where
  "sha256_alg = \<lparr>block_size = 64, digest = (\<lambda>m. Inr (sha256 m))\<rparr>"

definition sha512_alg :: hash_alg where
  "sha512_alg = \<lparr>block_size = 128, digest = (\<lambda>m. Inr (sha512 m))\<rparr>"

definition blake2b_alg :: hash_alg where
  "blake2b_alg = \<lparr>block_size = 128, digest = (\<lambda>m. Inr (blake2b m))\<rparr>"

section \<open>The Python runtime as a parameter\<close>

text \<open>
  What the module takes from the interpreter it runs on: \<open>str.lower\<close>, the codec
  registry behind \<open>str.encode\<close>, the two name sets of hashlib and the algorithms that
  \<open>hashlib.new\<close> resolves (\<open>None\<close> when it raises \<open>ValueError\<close>, unsupported hash
  type).
\<close>

record runtime =
  str_lower :: "str \<Rightarrow> str"
  str_encode :: "str \<Rightarrow> str \<Rightarrow> exc + bytes"
  algorithms_available :: "str list"
  algorithms_guaranteed :: "str list"
  hashlib_lookup :: "str \<Rightarrow> hash_alg option"

definition hashlib_new :: "runtime \<Rightarrow> str \<Rightarrow> exc + hash_obj" where
  "hashlib_new rt name =
     (case hashlib_lookup rt name of None \<Rightarrow> Inl ValueError | Some a \<Rightarrow> Inr (fresh a))"

definition hashlib_blake2b :: "exc + hash_obj" where
  "hashlib_blake2b = Inr (fresh blake2b_alg)"

definition DEFAULT_ALGOS :: "str list" where
  "DEFAULT_ALGOS = [lit ''sha256'', lit ''sha1'', lit ''sha512'', lit ''blake2b'']"

text \<open>
  A standard runtime guarantees the four algorithms of \<open>DEFAULT_ALGOS\<close> under their
  lower-case names, resolves them to the functions of FIPS 180-4 and RFC 7693, and
  encodes \<open>'utf-8'\<close> as UTF-8.
\<close>

definition standard_runtime :: "runtime \<Rightarrow> bool" where
  "standard_runtime rt \<longleftrightarrow>
     list_all (\<lambda>n. n \<in> set (algorithms_guaranteed rt) \<and> str_lower rt n = n) DEFAULT_ALGOS
     \<and> hashlib_lookup rt (lit ''sha256'') = Some sha256_alg
     \<and> hashlib_lookup rt (lit ''sha1'') = Some sha1_alg
     \<and> hashlib_lookup rt (lit ''sha512'') = Some sha512_alg
     \<and> hashlib_lookup rt (lit ''blake2b'') = Some blake2b_alg
     \<and> str_encode rt (lit ''utf-8'') = utf8_encode"

text \<open>
  A runtime with exactly the four algorithms. Like CPython on OpenSSL 3, its
  \<open>hashlib.new\<close> also resolves the alias \<open>sha-256\<close>, which neither name set lists.
\<close>

definition small_runtime :: runtime where
  "small_runtime =
     \<lparr>str_lower = ascii_lower,
      str_encode = (\<lambda>enc s. if enc = lit ''utf-8'' then utf8_encode s else Inl LookupError),
      algorithms_available = DEFAULT_ALGOS,
      algorithms_guaranteed = DEFAULT_ALGOS,
      hashlib_lookup = (\<lambda>n.
        if n = lit ''sha256'' \<or> n = lit ''sha-256'' then Some sha256_alg
        else if n = lit ''sha1'' then Some sha1_alg
        else if n = lit ''sha512'' then Some sha512_alg
        else if n = lit ''blake2b'' then Some blake2b_alg
        else None)\<rparr>"

section \<open>hmac.new and HMAC.hexdigest\<close>

text \<open>
  The \<open>digestmod\<close> argument of \<open>hmac.new\<close> is a name for \<open>hashlib.new\<close>, a
  constructor of hash objects, or any other object, which the library takes for a
  PEP 247 module and calls \<open>digestmod.new\<close> on. A hash object is of the last kind and
  has no attribute \<open>new\<close>: the first call of the constructor raises
  \<open>AttributeError\<close>. Otherwise the library builds the inner and the outer hash of
  RFC 2104.
\<close>

datatype digestmod =
    Name str
  | Constructor "bytes \<Rightarrow> exc + hash_obj"
  | Object hash_obj

record hmac_obj =
  inner :: hash_obj
  outer :: hash_obj

definition digest_cons :: "runtime \<Rightarrow> digestmod \<Rightarrow> bytes \<Rightarrow> exc + hash_obj" where
  "digest_cons rt dm d =
     (case dm of
        Name n \<Rightarrow> (case hashlib_new rt n of Inl e \<Rightarrow> Inl e | Inr h \<Rightarrow> Inr (update h d))
      | Constructor f \<Rightarrow> f d
      | Object h \<Rightarrow> Inl AttributeError)"

definition hmac_new :: "runtime \<Rightarrow> bytes \<Rightarrow> bytes \<Rightarrow> digestmod \<Rightarrow> exc + hmac_obj" where
  "hmac_new rt key msg dm =
     (case digest_cons rt dm [] of Inl e \<Rightarrow> Inl e | Inr outer0 \<Rightarrow>
      case digest_cons rt dm [] of Inl e \<Rightarrow> Inl e | Inr inner0 \<Rightarrow>
        let blocksize = (if block_size (alg inner0) < 16 then 64 else block_size (alg inner0))
        in case (if blocksize < length key
                 then (case digest_cons rt dm key of Inl e \<Rightarrow> Inl e | Inr hk \<Rightarrow> hash_digest hk)
                 else Inr key) of
             Inl e \<Rightarrow> Inl e
           | Inr key1 \<Rightarrow>
               let key2 = key1 @ replicate (blocksize - length key1) 0
               in Inr \<lparr>inner = update (update inner0 (map (\<lambda>x. x XOR 0x36) key2)) msg,
                       outer = update outer0 (map (\<lambda>x. x XOR 0x5C) key2)\<rparr>)"

definition hmac_hexdigest :: "hmac_obj \<Rightarrow> exc + str" where
  "hmac_hexdigest h =
     (case hash_digest (inner h) of Inl e \<Rightarrow> Inl e | Inr d \<Rightarrow> hexdigest (update (outer h) d))"
section \<open>hmac.compare\_digest\<close>

text \<open>
  The standard library compares two \<open>str\<close> arguments only when both are ASCII, and
  raises \<open>TypeError\<close> otherwise. The comparison itself is the library's \<open>_tscmp\<close>:
  when the lengths differ it compares the second argument with itself and starts from
  a non-zero result; it then ORs the XOR of every pair of bytes into the result.
\<close>

definition tscmp :: "nat list \<Rightarrow> nat list \<Rightarrow> bool" where
  "tscmp a b =
     (let left = (if length a \<noteq> length b then b else a);
          result = (if length a \<noteq> length b then 1 else 0 :: nat)
      in foldl (\<lambda>r (x, y). r OR (x XOR y)) result (zip left b) = 0)"

definition compare_digest :: "str \<Rightarrow> str \<Rightarrow> exc + bool" where
  "compare_digest a b =
     (if is_ascii a \<and> is_ascii b then Inr (tscmp a b) else Inl TypeError)"

section \<open>hash\_utils: compare\_hashes\<close>

definition compare_hashes :: "str \<Rightarrow> str \<Rightarrow> exc + bool" where
  "compare_hashes a b = compare_digest a b"


section \<open>hash\_utils: \_get\_hasher, hash\_text, hmac\_text\<close>

text \<open>
  \<open>_get_hasher\<close> returns a constructor; the hash object is made when the caller calls
  it. The special case for \<open>blake2b\<close> sits inside the branch where the name is in
  neither set, as in the source.
\<close>

definition get_hasher :: "runtime \<Rightarrow> str \<Rightarrow> exc + (unit \<Rightarrow> exc + hash_obj)" where
  "get_hasher rt name0 =
     (let name = str_lower rt name0
      in if name \<notin> set (algorithms_available rt) \<and> name \<notin> set (algorithms_guaranteed rt)
         then (if name = lit ''blake2b'' \<and> lit ''blake2b'' \<in> set (algorithms_available rt)
               then Inr (\<lambda>_. hashlib_blake2b)
               else Inl ValueError)
         else Inr (\<lambda>_. hashlib_new rt name))"

definition hash_text :: "runtime \<Rightarrow> str \<Rightarrow> str \<Rightarrow> str \<Rightarrow> exc + str" where
  "hash_text rt text algorithm encoding =
     (case get_hasher rt algorithm of Inl e \<Rightarrow> Inl e | Inr ctor \<Rightarrow>
      case ctor () of Inl e \<Rightarrow> Inl e | Inr h \<Rightarrow>
      case str_encode rt encoding text of Inl e \<Rightarrow> Inl e | Inr bs \<Rightarrow>
        hexdigest (update h bs))"

text \<open>
  \<open>hmac_text\<close> computes a local \<open>digestmod\<close> from the two name sets and never uses
  it. The arguments of \<open>hmac.new\<close> are evaluated in order: the key is encoded, then the
  text, then \<open>hashlib.new(algo)\<close> makes the hash object that is passed as
  \<open>digestmod\<close>.
\<close>

definition hmac_text_digestmod :: "runtime \<Rightarrow> str \<Rightarrow> digestmod option" where
  "hmac_text_digestmod rt algo =
     (if algo \<notin> set (algorithms_available rt) \<and> algo \<notin> set (algorithms_guaranteed rt)
      then (if algo = lit ''blake2b'' \<and> lit ''blake2b'' \<in> set (algorithms_available rt)
            then Some (Constructor (\<lambda>d. map_sum id (\<lambda>h. update h d) hashlib_blake2b))
            else None)
      else Some (Constructor (\<lambda>d. map_sum id (\<lambda>h. update h d) (hashlib_new rt algo))))"

definition hmac_text :: "runtime \<Rightarrow> str \<Rightarrow> str \<Rightarrow> str \<Rightarrow> str \<Rightarrow> exc + str" where
  "hmac_text rt text key algorithm encoding =
     (let algo = str_lower rt algorithm;
          digestmod = hmac_text_digestmod rt algo
      in case str_encode rt encoding key of Inl e \<Rightarrow> Inl e | Inr k \<Rightarrow>
         case str_encode rt encoding text of Inl e \<Rightarrow> Inl e | Inr m \<Rightarrow>
         case hashlib_new rt algo of Inl e \<Rightarrow> Inl e | Inr obj \<Rightarrow>
         case hmac_new rt k m (Object obj) of Inl e \<Rightarrow> Inl e | Inr h \<Rightarrow> hmac_hexdigest h)"

section \<open>hash\_utils: hash\_file\_chunked\<close>

text \<open>
  A file-like object is a state and its \<open>read\<close> method, which returns a chunk of bytes
  or of text, or raises, and the next state. A progress callback is a state machine
  too: called with the running total, it returns normally (\<open>None\<close>) or raises. The
  loop of the source runs until \<open>read\<close> returns an empty chunk; on a stream that never
  ends it does not return, which is the value \<open>None\<close> of \<open>chunk_loop\<close>.
  \<open>except Exception\<close> lets an exception that derives from \<open>BaseException\<close> only
  leave the function.
\<close>

datatype chunk = Bytes bytes | Text str

fun chunk_empty :: "chunk \<Rightarrow> bool" where
  "chunk_empty (Bytes bs) = (bs = [])"
| "chunk_empty (Text s) = (s = [])"

fun chunk_bytes :: "runtime \<Rightarrow> chunk \<Rightarrow> exc + bytes" where
  "chunk_bytes rt (Bytes bs) = Inr bs"
| "chunk_bytes rt (Text s) = str_encode rt (lit ''utf-8'') s"

type_synonym 'f reader = "'f \<Rightarrow> int \<Rightarrow> (exc + chunk) \<times> 'f"
type_synonym 'c callback = "'c \<Rightarrow> nat \<Rightarrow> exc option \<times> 'c"

partial_function (option) chunk_loop ::
  "runtime \<Rightarrow> 'f reader \<Rightarrow> int \<Rightarrow> 'c callback option \<Rightarrow> 'f \<Rightarrow> hash_obj \<Rightarrow> nat \<Rightarrow> 'c
     \<Rightarrow> ((exc + str) \<times> 'f \<times> 'c) option" where
  "chunk_loop rt rd chunk_size progress_callback f h tot c =
     (case rd f chunk_size of
        (Inl e, f') \<Rightarrow> Some (Inl e, f', c)
      | (Inr chunk, f') \<Rightarrow>
          if chunk_empty chunk then Some (hexdigest h, f', c)
          else (case chunk_bytes rt chunk of
                  Inl e \<Rightarrow> Some (Inl e, f', c)
                | Inr bs \<Rightarrow>
                    (case progress_callback of
                       None \<Rightarrow> chunk_loop rt rd chunk_size progress_callback f'
                                 (update h bs) (tot + length bs) c
                     | Some cb \<Rightarrow>
                         (case cb c (tot + length bs) of
                            (None, c') \<Rightarrow> chunk_loop rt rd chunk_size progress_callback f'
                                           (update h bs) (tot + length bs) c'
                          | (Some e, c') \<Rightarrow>
                              if is_Exception e
                              then chunk_loop rt rd chunk_size progress_callback f'
                                     (update h bs) (tot + length bs) c'
                              else Some (Inl e, f', c')))))"



definition hash_file_chunked ::
  "runtime \<Rightarrow> 'f reader \<Rightarrow> 'f \<Rightarrow> str \<Rightarrow> int \<Rightarrow> 'c callback option \<Rightarrow> 'c
     \<Rightarrow> ((exc + str) \<times> 'f \<times> 'c) option" where
  "hash_file_chunked rt rd file_obj algorithm chunk_size progress_callback c =
     (case get_hasher rt algorithm of Inl e \<Rightarrow> Some (Inl e, file_obj, c) | Inr ctor \<Rightarrow>
      case ctor () of Inl e \<Rightarrow> Some (Inl e, file_obj, c) | Inr h \<Rightarrow>
        chunk_loop rt rd chunk_size progress_callback file_obj h 0 c)"

text \<open>
  \<open>io.BytesIO\<close> and \<open>io.StringIO\<close>: the state is the content that is left to read;
  a negative size reads all of it.
\<close>

definition bytesio_read :: "bytes reader" where
  "bytesio_read buf n =
     (let k = (if n < 0 then length buf else nat n)
      in (Inr (Bytes (take k buf)), drop k buf))"

definition stringio_read :: "str reader" where
  "stringio_read buf n =
     (let k = (if n < 0 then length buf else nat n)
      in (Inr (Text (take k buf)), drop k buf))"

text \<open>
  A callback that raises only exceptions deriving from \<open>Exception\<close>; the running
  totals of a list of chunk lengths; the state of the callback after a list of calls.
\<close>

definition only_Exceptions :: "'c callback \<Rightarrow> bool" where
  "only_Exceptions cb \<longleftrightarrow> (\<forall>c n e. fst (cb c n) = Some e \<longrightarrow> is_Exception e)"

fun running_totals :: "nat \<Rightarrow> nat list \<Rightarrow> nat list" where
  "running_totals t [] = []"
| "running_totals t (l # ls) = (t + l) # running_totals (t + l) ls"

definition callback_state :: "'c callback option \<Rightarrow> 'c \<Rightarrow> nat list \<Rightarrow> 'c" where
  "callback_state progress_callback c calls =
     (case progress_callback of None \<Rightarrow> c | Some cb \<Rightarrow> foldl (\<lambda>c n. snd (cb c n)) c calls)"

text \<open>
  The algorithm, the digest function and the length of the hexadecimal digest that
  belong to each name of \<open>DEFAULT_ALGOS\<close>.
\<close>

definition default_alg :: "str \<Rightarrow> hash_alg" where
  "default_alg n =
     (if n = lit ''sha256'' then sha256_alg else if n = lit ''sha1'' then sha1_alg
      else if n = lit ''sha512'' then sha512_alg else blake2b_alg)"

definition default_digest :: "str \<Rightarrow> bytes \<Rightarrow> bytes" where
  "default_digest n =
     (if n = lit ''sha256'' then sha256 else if n = lit ''sha1'' then sha1
      else if n = lit ''sha512'' then sha512 else blake2b)"

definition digest_hex_length :: "str \<Rightarrow> nat" where
  "digest_hex_length n =
     (if n = lit ''sha1'' then 40 else if n = lit ''sha256'' then 64
      else if n = lit ''sha512'' then 128 else 128)"

definition is_lower_hex :: "str \<Rightarrow> bool" where
  "is_lower_hex s = list_all (\<lambda>c. (48 \<le> c \<and> c \<le> 57) \<or> (97 \<le> c \<and> c \<le> 102)) s"

section \<open>Properties of the comparison\<close>






text \<open>
  C9. \<open>compare_hashes\<close> is not total on strings: it raises \<open>TypeError\<close> as soon as one
  argument holds a code point above 127, and on two ASCII strings it returns a boolean.
\<close>

theorem compare_hashes_total_on_ascii_only:
  "(\<exists>r. compare_hashes a b = Inr r) \<longleftrightarrow> is_ascii a \<and> is_ascii b"
  by (simp add: compare_hashes_def compare_digest_def)




section \<open>Properties of algorithm resolution and of hmac\_text\<close>

lemma small_runtime_standard: "standard_runtime small_runtime"
  by (simp add: standard_runtime_def small_runtime_def DEFAULT_ALGOS_def lit_def ascii_lower_def)

lemma hashlib_new_standard:
  assumes "standard_runtime rt"
  shows "hashlib_new rt (lit ''sha256'') = Inr (fresh sha256_alg)"
    and "hashlib_new rt (lit ''sha1'') = Inr (fresh sha1_alg)"
    and "hashlib_new rt (lit ''sha512'') = Inr (fresh sha512_alg)"
    and "hashlib_new rt (lit ''blake2b'') = Inr (fresh blake2b_alg)"
  using assms by (simp_all add: standard_runtime_def hashlib_new_def)

lemma DEFAULT_ALGOS_guaranteed:
  "standard_runtime rt \<Longrightarrow> n \<in> set DEFAULT_ALGOS \<Longrightarrow> n \<in> set (algorithms_guaranteed rt)"
  by (auto simp: standard_runtime_def list_all_iff)

lemma get_hasher_listed:
  "str_lower rt a \<in> set (algorithms_guaranteed rt) \<Longrightarrow>
     get_hasher rt a = Inr (\<lambda>_. hashlib_new rt (str_lower rt a))"
  by (simp add: get_hasher_def)

lemma get_hasher_unlisted:
  "str_lower rt a \<notin> set (algorithms_available rt) \<Longrightarrow>
   str_lower rt a \<notin> set (algorithms_guaranteed rt) \<Longrightarrow> get_hasher rt a = Inl ValueError"
  by (auto simp: get_hasher_def Let_def)

lemma hash_text_unlisted:
  "str_lower rt a \<notin> set (algorithms_available rt) \<Longrightarrow>
   str_lower rt a \<notin> set (algorithms_guaranteed rt) \<Longrightarrow> hash_text rt text a enc = Inl ValueError"
  by (simp add: hash_text_def get_hasher_unlisted)

lemma hmac_new_Object: "hmac_new rt k m (Object obj) = Inl AttributeError"
  by (simp add: hmac_new_def digest_cons_def)

lemma hmac_text_never_returns: "hmac_text rt text key a enc \<noteq> Inr mac"
  by (simp add: hmac_text_def hmac_new_Object Let_def split: sum.splits)

lemma hmac_text_AttributeError:
  "str_encode rt enc key = Inr k \<Longrightarrow> str_encode rt enc text = Inr m \<Longrightarrow>
   hashlib_lookup rt (str_lower rt a) = Some al \<Longrightarrow>
   hmac_text rt text key a enc = Inl AttributeError"
  by (simp add: hmac_text_def hmac_new_Object hashlib_new_def Let_def)

lemma hmac_text_ValueError:
  "str_encode rt enc key = Inr k \<Longrightarrow> str_encode rt enc text = Inr m \<Longrightarrow>
   hashlib_lookup rt (str_lower rt a) = None \<Longrightarrow>
   hmac_text rt text key a enc = Inl ValueError"
  by (simp add: hmac_text_def hashlib_new_def Let_def)

text \<open>
  C2. \<open>hmac_text\<close> is documented to compute the HMAC of the text under the key. The
  call \<open>hmac_text("mensaje", "clave", "sha256")\<close> raises \<open>AttributeError\<close> instead:
  the hash object passed as \<open>digestmod\<close> has no \<open>new\<close>. By
  \<open>hmac_text_never_returns\<close> no call of \<open>hmac_text\<close> returns a MAC.
\<close>

theorem hmac_text_mensaje_clave:
  "hmac_text small_runtime (lit ''mensaje'') (lit ''clave'') (lit ''sha256'') (lit ''utf-8'')
     = Inl AttributeError"
  by (simp add: hmac_text_def hmac_new_Object hashlib_new_def Let_def small_runtime_def
        ascii_lower_def lit_def utf8_cp_def split: sum.splits)


lemma hmac_text_md999:
  "hmac_text small_runtime (lit ''x'') (lit ''k'') (lit ''md999'') (lit ''utf-8'') = Inl ValueError"
  by (simp add: hmac_text_def hmac_new_Object hashlib_new_def Let_def small_runtime_def
        DEFAULT_ALGOS_def ascii_lower_def lit_def utf8_cp_def split: sum.splits)

section \<open>Properties of hash\_file\_chunked\<close>

lemma update_update: "update (update h a) b = update h (a @ b)"
  by (simp add: update_def)

lemma update_Nil: "update h [] = h"
  by (simp add: update_def)

lemma blocks_Nil: "blocks n [] = []"
  by (simp add: blocks.simps)

lemma blocks_Cons: "0 < n \<Longrightarrow> xs \<noteq> [] \<Longrightarrow> blocks n xs = take n xs # blocks n (drop n xs)"
  by (subst blocks.simps) simp

lemma chunk_loop_bytesio:
  assumes "0 < k" and "chunk_size = int k"
    and "progress_callback = None \<or> (\<exists>cb. progress_callback = Some cb \<and> only_Exceptions cb)"
  shows "chunk_loop rt bytesio_read chunk_size progress_callback S h tot c =
           Some (hexdigest (update h S), [],
                 callback_state progress_callback c (running_totals tot (map length (blocks k S))))"
proof (induction "length S" arbitrary: S h tot c rule: less_induct)
  case less
  show ?case
  proof (cases "S = []")
    case True
    then show ?thesis
      by (subst chunk_loop.simps)
         (simp add: bytesio_read_def assms update_Nil blocks_Nil callback_state_def
               split: option.splits)
  next
    case False
    with assms have shorter: "length (drop k S) < length S" and ne: "take k S \<noteq> []"
      by auto
    have rd: "bytesio_read S chunk_size = (Inr (Bytes (take k S)), drop k S)"
      using assms by (simp add: bytesio_read_def)
    note IH = less [OF shorter, of "update h (take k S)" "tot + length (take k S)"]
    show ?thesis
    proof (cases progress_callback)
      case None
      then show ?thesis
        using IH ne False assms(1)
        by (subst chunk_loop.simps)
           (simp add: rd update_update blocks_Cons callback_state_def)
    next
      case (Some cb)
      with assms have ok: "only_Exceptions cb" by auto
      obtain r c' where cbr: "cb c (tot + length (take k S)) = (r, c')"
        by (cases "cb c (tot + length (take k S))")
      have exc: "is_Exception e" if "r = Some e" for e
      proof -
        from cbr that have "fst (cb c (tot + length (take k S))) = Some e" by simp
        with ok show ?thesis unfolding only_Exceptions_def by blast
      qed
      show ?thesis
        using IH [of c'] ne False assms(1) Some cbr exc
        by (subst chunk_loop.simps)
           (auto simp: rd update_update blocks_Cons callback_state_def split: option.splits)
    qed
  qed
qed

lemma only_ExceptionsD:
  "only_Exceptions cb \<Longrightarrow> cb c n = (Some e, c') \<Longrightarrow> is_Exception e"
  unfolding only_Exceptions_def by (metis fst_conv)

lemma chunk_loop_drop_callback:
  assumes "chunk_loop rt rd cs pc f h tot c = Some y"
  shows "\<forall>cb. pc = Some cb \<longrightarrow> only_Exceptions cb \<longrightarrow>
           chunk_loop rt rd cs None f h tot c0 = Some (fst y, fst (snd y), c0)"
proof (rule chunk_loop.raw_induct
    [where P = "\<lambda>rt rd cs pc f h tot c y. \<forall>cb. pc = Some cb \<longrightarrow> only_Exceptions cb \<longrightarrow>
           chunk_loop rt rd cs None f h tot c0 = Some (fst y, fst (snd y), c0)", OF _ assms],
    goal_cases)
  case (1 loop' rt rd cs pc f h tot c y)
  show ?case
  proof (intro allI impI)
    fix cb
    assume pc: "pc = Some cb" and ok: "only_Exceptions cb"
    obtain r f2 c2 where y: "y = (r, f2, c2)" by (cases y)
    from 1(2) pc ok 1(1)
    show "chunk_loop rt rd cs None f h tot c0 = Some (fst y, fst (snd y), c0)"
      unfolding y
      by (subst chunk_loop.simps)
         (auto split: prod.splits sum.splits option.splits if_splits dest: only_ExceptionsD)
  qed
qed

lemma chunk_loop_add_callback:
  assumes "chunk_loop rt rd cs pc f h tot c0 = Some y"
  shows "pc = None \<longrightarrow> (\<forall>(cb :: 'c callback) (c :: 'c). only_Exceptions cb \<longrightarrow>
           (\<exists>c'. chunk_loop rt rd cs (Some cb) f h tot c = Some (fst y, fst (snd y), c')))"
proof (rule chunk_loop.raw_induct
    [where P = "\<lambda>rt rd cs pc f h tot c0 y. pc = None \<longrightarrow> (\<forall>(cb :: 'c callback) (c :: 'c). only_Exceptions cb \<longrightarrow>
           (\<exists>c'. chunk_loop rt rd cs (Some cb) f h tot c = Some (fst y, fst (snd y), c')))",
     OF _ assms],
    goal_cases)
  case (1 loop' rt rd cs pc f h tot c0 y)
  show ?case
  proof (intro allI impI)
    fix cb :: "'c callback" and c :: 'c
    assume pc: "pc = None" and ok: "only_Exceptions cb"
    obtain r f2 c2 where y: "y = (r, f2, c2)" by (cases y)
    have IH: "\<exists>c'. chunk_loop a1 a2 a3 (Some cb) a5 a6 a7 d = Some (r', f', c')"
      if "loop' a1 a2 a3 None a5 a6 a7 a8 = Some (r', f', d0)"
      for a1 a2 a3 a5 a6 a7 a8 r' f' d0 and d :: 'c
      using 1(1) [OF that] ok by auto
    from 1(2) pc ok
    show "\<exists>c'. chunk_loop rt rd cs (Some cb) f h tot c = Some (fst y, fst (snd y), c')"
      unfolding y
      apply (subst chunk_loop.simps)
      apply (auto split: prod.splits sum.splits option.splits if_splits dest: only_ExceptionsD)
       apply (rule IH, assumption)+
      done
  qed
qed

lemma drop_callback:
  "chunk_loop rt rd cs (Some cb) f h tot c = Some y \<Longrightarrow> only_Exceptions cb \<Longrightarrow>
     chunk_loop rt rd cs None f h tot c0 = Some (fst y, fst (snd y), c0)"
  by (rule chunk_loop_drop_callback [rule_format, OF _ refl])

lemma add_callback:
  "chunk_loop rt rd cs None f h tot c0 = Some y \<Longrightarrow> only_Exceptions cb \<Longrightarrow>
     \<exists>c'. chunk_loop rt rd cs (Some cb) f h tot c = Some (fst y, fst (snd y), c')"
  by (rule chunk_loop_add_callback [rule_format, OF _ refl])

lemma chunk_loop_callback_irrelevant:
  assumes "only_Exceptions cb"
  shows "map_option (\<lambda>(r, f', _). (r, f')) (chunk_loop rt rd cs (Some cb) f h tot c) =
         map_option (\<lambda>(r, f', _). (r, f')) (chunk_loop rt rd cs None f h tot c0)"
proof (cases "chunk_loop rt rd cs (Some cb) f h tot c")
  case None
  note none_cb = None
  show ?thesis
  proof (cases "chunk_loop rt rd cs None f h tot c0")
    case None
    with none_cb show ?thesis by simp
  next
    case (Some y)
    from add_callback [OF Some assms, of c] none_cb show ?thesis by simp
  qed
next
  case (Some y)
  from drop_callback [OF Some assms, of c0] Some show ?thesis
    by (cases y) simp
qed

lemma hashlib_new_default:
  "standard_runtime rt \<Longrightarrow> n \<in> set DEFAULT_ALGOS \<Longrightarrow>
     hashlib_new rt n = Inr (fresh (default_alg n))"
  by (auto simp: standard_runtime_def hashlib_new_def default_alg_def DEFAULT_ALGOS_def lit_def)

lemma hexdigest_default:
  "n \<in> set DEFAULT_ALGOS \<Longrightarrow>
     hexdigest (update (fresh (default_alg n)) S) = Inr (hexlify (default_digest n S))"
  by (auto simp: hexdigest_def hash_digest_def update_def fresh_def default_alg_def
        default_digest_def DEFAULT_ALGOS_def lit_def sha256_alg_def sha1_alg_def sha512_alg_def
        blake2b_alg_def)


lemma hash_file_chunked_bytesio_default:
  assumes "standard_runtime rt" and "str_lower rt a \<in> set DEFAULT_ALGOS" and "0 < k"
    and "progress_callback = None \<or> (\<exists>cb. progress_callback = Some cb \<and> only_Exceptions cb)"
  shows "hash_file_chunked rt bytesio_read S a (int k) progress_callback c =
           Some (Inr (hexlify (default_digest (str_lower rt a) S)), [],
                 callback_state progress_callback c (running_totals 0 (map length (blocks k S))))"
  using assms(1,2)
  by (simp add: hash_file_chunked_def get_hasher_listed DEFAULT_ALGOS_guaranteed
        hashlib_new_default chunk_loop_bytesio [OF assms(3) refl assms(4)] hexdigest_default)

text \<open>
  C6. For every stream, algorithm and chunk size: when the callback raises only
  exceptions that derive from \<open>Exception\<close>, on whichever calls, the outcome of
  \<open>hash_file_chunked\<close> (the digest, an error of the stream or of the algorithm lookup,
  or no return) and the state the stream is left in are those of the call without a
  callback.
\<close>

theorem callback_errors_swallowed:
  assumes "only_Exceptions cb"
  shows "map_option (\<lambda>(r, f', _). (r, f')) (hash_file_chunked rt rd f a cs (Some cb) c) =
         map_option (\<lambda>(r, f', _). (r, f')) (hash_file_chunked rt rd f a cs None c0)"
proof (cases "get_hasher rt a")
  case (Inl e)
  then show ?thesis by (simp add: hash_file_chunked_def)
next
  case ctor: (Inr ctor)
  show ?thesis
  proof (cases "ctor ()")
    case (Inl e)
    with ctor show ?thesis by (simp add: hash_file_chunked_def)
  next
    case (Inr h)
    with ctor chunk_loop_callback_irrelevant [OF assms, of rt rd cs f h 0 c c0]
    show ?thesis by (simp add: hash_file_chunked_def)
  qed
qed

theorem callback_errors_swallowed_witness:
  "only_Exceptions (\<lambda>(c :: unit) n. (Some RuntimeError, c))
   \<and> map_option (\<lambda>(r, f', _). (r, f'))
        (hash_file_chunked small_runtime bytesio_read [1, 2, 3] (lit ''sha256'') 2
           (Some (\<lambda>(c :: unit) n. (Some RuntimeError, c))) ())
     = Some (Inr (hexlify (sha256 [1, 2, 3])), [])"
proof -
  have ok: "only_Exceptions (\<lambda>(c :: unit) n. (Some RuntimeError, c))"
    by (simp add: only_Exceptions_def)
  have lower: "str_lower small_runtime (lit ''sha256'') = lit ''sha256''"
    by (simp add: small_runtime_def ascii_lower_def lit_def)
  have "hash_file_chunked small_runtime bytesio_read [1, 2, 3] (lit ''sha256'') (int 2) None ()
          = Some (Inr (hexlify (sha256 [1, 2, 3])), [], ())"
    using hash_file_chunked_bytesio_default
            [OF small_runtime_standard, of "lit ''sha256''" 2 None "[1, 2, 3]" "()"]
    by (simp add: lower DEFAULT_ALGOS_def default_digest_def callback_state_def)
  with ok callback_errors_swallowed
         [OF ok, of small_runtime bytesio_read "[1, 2, 3]" "lit ''sha256''" 2 "()" "()"]
  show ?thesis by simp
qed



section \<open>The calls of the progress callback\<close>











end
